theory Spec2Isabelle
  imports Complex_Main
begin

section \<open>JavaScript numbers\<close>

text \<open>
  Every coordinate, size and slider bound of the library is a JavaScript number, an
  IEEE 754 binary64 value. The finite numbers a caller passes in are written as reals;
  a value the code computes can also be an infinity or NaN (a division by zero, an
  overflow, or arithmetic on a property an object does not have: \<open>child.width\<close> of a
  button without a \<open>width\<close> is \<open>undefined\<close> and becomes NaN). The sign of a zero is not
  kept: no zero divisor of the code below can be negative.

  The arithmetic of the slider is rounded to double precision after every operation
  (\<open>d_add\<close>, \<open>d_sub\<close>, \<open>d_mul\<close>, \<open>d_div\<close> below). The buttons and the layout only add the
  coordinates, sizes and spacings they are given; these sums are written with the exact
  \<open>+\<close>.
\<close>

datatype jsnum = Finite real | PosInfinity | NegInfinity | NaN

text \<open>\<open>ToNumber\<close> of a property that may be absent: \<open>undefined\<close> becomes NaN.\<close>

fun ToNumber :: "real option \<Rightarrow> jsnum" where
  "ToNumber None = NaN"
| "ToNumber (Some r) = Finite r"

fun js_add :: "jsnum \<Rightarrow> jsnum \<Rightarrow> jsnum" where
  "js_add (Finite a) (Finite b) = Finite (a + b)"
| "js_add NaN b = NaN"
| "js_add a NaN = NaN"
| "js_add PosInfinity NegInfinity = NaN"
| "js_add NegInfinity PosInfinity = NaN"
| "js_add PosInfinity b = PosInfinity"
| "js_add NegInfinity b = NegInfinity"
| "js_add (Finite a) PosInfinity = PosInfinity"
| "js_add (Finite a) NegInfinity = NegInfinity"

fun js_neg :: "jsnum \<Rightarrow> jsnum" where
  "js_neg (Finite a) = Finite (- a)"
| "js_neg PosInfinity = NegInfinity"
| "js_neg NegInfinity = PosInfinity"
| "js_neg NaN = NaN"

definition js_sub :: "jsnum \<Rightarrow> jsnum \<Rightarrow> jsnum" where
  "js_sub a b = js_add a (js_neg b)"

text \<open>
  The sign of a number: \<open>Some True\<close> positive, \<open>Some False\<close> negative, \<open>None\<close> zero or
  NaN. A product with an infinite factor is an infinity of the product's sign, and NaN
  when the other factor is zero or NaN.
\<close>

fun js_sign :: "jsnum \<Rightarrow> bool option" where
  "js_sign (Finite a) = (if a > 0 then Some True else if a < 0 then Some False else None)"
| "js_sign PosInfinity = Some True"
| "js_sign NegInfinity = Some False"
| "js_sign NaN = None"

definition js_mul :: "jsnum \<Rightarrow> jsnum \<Rightarrow> jsnum" where
  "js_mul a b =
     (case (a, b) of
        (Finite p, Finite q) \<Rightarrow> Finite (p * q)
      | _ \<Rightarrow> (case (js_sign a, js_sign b) of
                (Some s, Some t) \<Rightarrow> if s = t then PosInfinity else NegInfinity
              | _ \<Rightarrow> NaN))"

text \<open>
  Division. A zero divisor counts as \<open>+0\<close>: a finite number divided by it is an
  infinity of the dividend's sign, and \<open>0 / 0\<close> is NaN.
\<close>

fun js_div :: "jsnum \<Rightarrow> jsnum \<Rightarrow> jsnum" where
  "js_div (Finite a) (Finite b) =
     (if b = 0 then (if a = 0 then NaN else if a > 0 then PosInfinity else NegInfinity)
      else Finite (a / b))"
| "js_div NaN b = NaN"
| "js_div a NaN = NaN"
| "js_div (Finite a) b = Finite 0"
| "js_div a (Finite b) =
     (if (js_sign a = Some True) = (0 \<le> b) then PosInfinity else NegInfinity)"
| "js_div a b = NaN"

text \<open>\<open>a < b\<close> on numbers: false as soon as one side is NaN.\<close>

fun js_less :: "jsnum \<Rightarrow> jsnum \<Rightarrow> bool" where
  "js_less (Finite a) (Finite b) = (a < b)"
| "js_less NaN b = False"
| "js_less a NaN = False"
| "js_less a NegInfinity = False"
| "js_less PosInfinity b = False"
| "js_less a b = True"

subsection \<open>Rounding to double precision\<close>

text \<open>
  The result of an arithmetic operation is the exact result rounded to the nearest
  binary64 value, ties to the even significand. \<open>pow2 k\<close> is \<open>2\<close> to the power \<open>k\<close>.
  A number in the binade \<open>[2^e, 2^(e+1))\<close> is rounded to a multiple of \<open>2^(e-52)\<close>; below
  \<open>2^(-1022)\<close> (subnormal numbers) the spacing stays \<open>2^(-1074)\<close>. A result that rounds to
  \<open>2^1024\<close> or beyond overflows to an infinity.
\<close>

definition pow2 :: "int \<Rightarrow> real" where
  "pow2 k = (if 0 \<le> k then 2 ^ nat k else 1 / 2 ^ nat (- k))"

definition round_half_even :: "real \<Rightarrow> int" where
  "round_half_even q =
     (let f = \<lfloor>q\<rfloor>; d = q - of_int f
      in if d < 1 / 2 then f else if 1 / 2 < d then f + 1 else if even f then f else f + 1)"

definition double_exponent :: "real \<Rightarrow> int" where
  "double_exponent r = max \<lfloor>log 2 \<bar>r\<bar>\<rfloor> (- 1022)"

definition round_double :: "real \<Rightarrow> jsnum" where
  "round_double r =
     (if r = 0 then Finite 0
      else let ulp = pow2 (double_exponent r - 52);
               v = of_int (round_half_even (r / ulp)) * ulp
           in if pow2 1024 \<le> \<bar>v\<bar> then (if 0 < r then PosInfinity else NegInfinity)
              else Finite v)"


fun round_js :: "jsnum \<Rightarrow> jsnum" where
  "round_js (Finite r) = round_double r"
| "round_js PosInfinity = PosInfinity"
| "round_js NegInfinity = NegInfinity"
| "round_js NaN = NaN"

text \<open>The four operations of the language on doubles: \<open>+\<close>, \<open>-\<close>, \<open>*\<close>, \<open>/\<close>.\<close>

definition d_add :: "jsnum \<Rightarrow> jsnum \<Rightarrow> jsnum" where
  "d_add a b = round_js (js_add a b)"

definition d_sub :: "jsnum \<Rightarrow> jsnum \<Rightarrow> jsnum" where
  "d_sub a b = round_js (js_sub a b)"

definition d_mul :: "jsnum \<Rightarrow> jsnum \<Rightarrow> jsnum" where
  "d_mul a b = round_js (js_mul a b)"

definition d_div :: "jsnum \<Rightarrow> jsnum \<Rightarrow> jsnum" where
  "d_div a b = round_js (js_div a b)"

section \<open>The drawing surface and the process-wide state\<close>

text \<open>
  The 2D context keeps the current \<open>fillStyle\<close> and \<open>font\<close>; every drawing call is
  appended to a log together with the style it was painted with.
\<close>

datatype canvas_call =
    ClearRect jsnum jsnum jsnum jsnum
  | FillRect string jsnum jsnum jsnum jsnum
  | FillText string string string jsnum jsnum

record context2d =
  ctx_fillStyle :: string
  ctx_font :: string
  ctx_calls :: "canvas_call list"

definition ctx_clearRect :: "context2d \<Rightarrow> jsnum \<Rightarrow> jsnum \<Rightarrow> jsnum \<Rightarrow> jsnum \<Rightarrow> context2d" where
  "ctx_clearRect ctx x y width height =
     ctx\<lparr>ctx_calls := ctx_calls ctx @ [ClearRect x y width height]\<rparr>"

definition ctx_fillRect :: "context2d \<Rightarrow> jsnum \<Rightarrow> jsnum \<Rightarrow> jsnum \<Rightarrow> jsnum \<Rightarrow> context2d" where
  "ctx_fillRect ctx x y width height =
     ctx\<lparr>ctx_calls := ctx_calls ctx @ [FillRect (ctx_fillStyle ctx) x y width height]\<rparr>"

definition ctx_fillText :: "context2d \<Rightarrow> string \<Rightarrow> jsnum \<Rightarrow> jsnum \<Rightarrow> context2d" where
  "ctx_fillText ctx text x y =
     ctx\<lparr>ctx_calls := ctx_calls ctx @ [FillText (ctx_fillStyle ctx) (ctx_font ctx) text x y]\<rparr>"

text \<open>
  An exception thrown by a callback. A callback (\<open>onClick\<close>) is a function on the
  application's own state \<open>'u\<close> that returns the new state or throws.
\<close>

datatype exn = Error string

type_synonym 'u callback = "'u \<Rightarrow> exn + 'u"

text \<open>
  The world a render call runs in: the module variables of \<open>core/input.js\<close>
  (\<open>mouseX\<close>, \<open>mouseY\<close>, \<open>isMouseClicked\<close>), the canvas context, the console and the
  application state the callbacks work on.
\<close>

record 'u world =
  mouseX :: real
  mouseY :: real
  isMouseClicked :: bool
  canvas :: context2d
  console :: "string list"
  user :: 'u

subsection \<open>core/input.js\<close>

text \<open>\<open>let mouseX = 0, mouseY = 0, isMouseClicked = false;\<close> on a fresh context.\<close>

definition initial_world :: "'u \<Rightarrow> 'u world" where
  "initial_world u =
     \<lparr>mouseX = 0, mouseY = 0, isMouseClicked = False,
      canvas = \<lparr>ctx_fillStyle = ''#000000'', ctx_font = ''10px sans-serif'', ctx_calls = []\<rparr>,
      console = [], user = u\<rparr>"

text \<open>
  The three listeners \<open>setupInput\<close> registers. A \<open>mousemove\<close> event carries
  \<open>clientX\<close>, \<open>clientY\<close>; \<open>rect_left\<close> and \<open>rect_top\<close> are \<open>rect.left\<close> and \<open>rect.top\<close> of
  the canvas's bounding rectangle.
\<close>

definition on_mousemove :: "real \<Rightarrow> real \<Rightarrow> real \<Rightarrow> real \<Rightarrow> 'u world \<Rightarrow> 'u world" where
  "on_mousemove clientX clientY rect_left rect_top w =
     w\<lparr>mouseX := clientX - rect_left, mouseY := clientY - rect_top\<rparr>"

definition on_mousedown :: "'u world \<Rightarrow> 'u world" where
  "on_mousedown w = w\<lparr>isMouseClicked := True\<rparr>"

definition on_mouseup :: "'u world \<Rightarrow> 'u world" where
  "on_mouseup w = w\<lparr>isMouseClicked := False\<rparr>"

definition getMousePosition :: "'u world \<Rightarrow> real \<times> real" where
  "getMousePosition w = (mouseX w, mouseY w)"

definition isClicked :: "'u world \<Rightarrow> bool" where
  "isClicked w = isMouseClicked w"

subsection \<open>core/rendering.js (second attempt)\<close>

definition clearCanvas :: "context2d \<Rightarrow> real \<Rightarrow> real \<Rightarrow> context2d" where
  "clearCanvas ctx width height = ctx_clearRect ctx (Finite 0) (Finite 0) (Finite width) (Finite height)"

text \<open>\<open>color\<close> and \<open>font\<close> are optional parameters with defaults.\<close>

definition drawRect ::
  "context2d \<Rightarrow> jsnum \<Rightarrow> jsnum \<Rightarrow> jsnum \<Rightarrow> jsnum \<Rightarrow> string option \<Rightarrow> context2d" where
  "drawRect ctx x y width height color =
     (let ctx1 = ctx\<lparr>ctx_fillStyle := (case color of None \<Rightarrow> ''#000'' | Some c \<Rightarrow> c)\<rparr>
      in ctx_fillRect ctx1 x y width height)"

definition drawText ::
  "context2d \<Rightarrow> string \<Rightarrow> jsnum \<Rightarrow> jsnum \<Rightarrow> string option \<Rightarrow> string option \<Rightarrow> context2d" where
  "drawText ctx text x y font color =
     (let ctx1 = ctx\<lparr>ctx_fillStyle := (case color of None \<Rightarrow> ''#000'' | Some c \<Rightarrow> c)\<rparr>;
          ctx2 = ctx1\<lparr>ctx_font := (case font of None \<Rightarrow> ''16px Arial'' | Some f \<Rightarrow> f)\<rparr>
      in ctx_fillText ctx2 text x y)"

subsection \<open>themes/theme.js\<close>

definition theme_button_color :: string where
  "theme_button_color = ''#007BFF''"

definition theme_button_hoverColor :: string where
  "theme_button_hoverColor = ''#0056b3''"

definition theme_button_textColor :: string where
  "theme_button_textColor = ''#FFFFFF''"

definition theme_button_font :: string where
  "theme_button_font = ''16px Arial''"

section \<open>Components\<close>

text \<open>
  A component is an object with an optional \<open>width\<close> and \<open>height\<close> property and a
  \<open>render(ctx, x, y)\<close> method. An argument or property that is not there is \<open>None\<close>
  (JavaScript's \<open>undefined\<close>). A render call returns the new world, or the exception
  that escaped from it.
\<close>

record 'u component =
  obj_width :: "real option"
  obj_height :: "real option"
  obj_render :: "jsnum option \<Rightarrow> jsnum option \<Rightarrow> 'u world \<Rightarrow> exn + 'u world"

subsection \<open>components/button.js, first attempt\<close>

text \<open>
  \<open>createButton(label, x, y, width, height)\<close>: themed colours, the label at
  \<open>(x + 10, y + 30)\<close>, and a console line when hovered with the button down. Its
  \<open>render(ctx)\<close> takes no position.
\<close>

definition createButton_001 ::
  "string \<Rightarrow> real \<Rightarrow> real \<Rightarrow> real \<Rightarrow> real \<Rightarrow> 'u component" where
  "createButton_001 label x y width height =
     \<lparr>obj_width = Some width, obj_height = Some height,
      obj_render = (\<lambda>_ _ w.
        let (mouseX, mouseY) = getMousePosition w;
            isHovered = (mouseX > x \<and> mouseX < x + width \<and> mouseY > y \<and> mouseY < y + height);
            ctx = canvas w;
            ctx1 = ctx\<lparr>ctx_fillStyle :=
                     (if isHovered then theme_button_hoverColor else theme_button_color)\<rparr>;
            ctx2 = ctx_fillRect ctx1 (Finite x) (Finite y) (Finite width) (Finite height);
            ctx3 = ctx2\<lparr>ctx_fillStyle := theme_button_textColor\<rparr>;
            ctx4 = ctx3\<lparr>ctx_font := theme_button_font\<rparr>;
            ctx5 = ctx_fillText ctx4 label (Finite (x + 10)) (Finite (y + 30));
            w1 = w\<lparr>canvas := ctx5\<rparr>
        in if isHovered \<and> isClicked w1
           then Inr (w1\<lparr>console := console w1 @ [label @ '' clicked!'']\<rparr>)
           else Inr w1)\<rparr>"

subsection \<open>components/button.js, second attempt\<close>

text \<open>
  \<open>createButton(label, x, y, width, height, onClick)\<close>: the returned object has a
  \<open>render(ctx)\<close> method only (no \<open>width\<close>, no \<open>height\<close>). \<open>onClick\<close> is \<open>None\<close> when
  the caller passes no callback; \<open>undefined\<close> is falsy, so the call is skipped.
\<close>

definition createButton_002 ::
  "string \<Rightarrow> real \<Rightarrow> real \<Rightarrow> real \<Rightarrow> real \<Rightarrow> 'u callback option \<Rightarrow> 'u component" where
  "createButton_002 label x y width height onClick =
     \<lparr>obj_width = None, obj_height = None,
      obj_render = (\<lambda>_ _ w.
        let (mouseX, mouseY) = getMousePosition w;
            isHovered = (mouseX > x \<and> mouseX < x + width \<and> mouseY > y \<and> mouseY < y + height);
            ctx1 = drawRect (canvas w) (Finite x) (Finite y) (Finite width) (Finite height)
                     (Some (if isHovered then ''#555'' else ''#333''));
            ctx2 = drawText ctx1 label (Finite (x + 10)) (Finite (y + 25))
                     (Some ''16px Arial'') (Some ''#fff'');
            w1 = w\<lparr>canvas := ctx2\<rparr>
        in if isHovered \<and> isClicked w1
           then (case onClick of
                   None \<Rightarrow> Inr w1
                 | Some f \<Rightarrow> (case f (user w1) of
                                Inl e \<Rightarrow> Inl e
                              | Inr u \<Rightarrow> Inr (w1\<lparr>user := u\<rparr>)))
           else Inr w1)\<rparr>"

subsection \<open>components/slider.js\<close>

text \<open>
  \<open>createSlider(min, max, value, x, y, width, height)\<close> returns an object whose
  \<open>render(ctx)\<close> closes over its parameters; \<open>value\<close> is the one it assigns to, and
  what it assigns is the result of a computation, so it is a \<open>jsnum\<close>. The record is
  that closure. The function has no \<open>throw\<close> and checks nothing, so the result is
  always the object.
\<close>

record slider =
  sl_min :: real
  sl_max :: real
  sl_value :: jsnum
  sl_x :: real
  sl_y :: real
  sl_width :: real
  sl_height :: real

definition createSlider ::
  "real \<Rightarrow> real \<Rightarrow> real \<Rightarrow> real \<Rightarrow> real \<Rightarrow> real \<Rightarrow> real \<Rightarrow> exn + slider" where
  "createSlider min' max' value x y width height =
     Inr \<lparr>sl_min = min', sl_max = max', sl_value = Finite value,
          sl_x = x, sl_y = y, sl_width = width, sl_height = height\<rparr>"

text \<open>
  \<open>render(ctx)\<close> of a slider. Every \<open>+\<close>, \<open>-\<close>, \<open>*\<close> and \<open>/\<close> of the source is the
  operation on doubles, the sums \<open>x + width\<close> and \<open>y + height\<close> of the hit test included.
\<close>

definition slider_render :: "slider \<Rightarrow> 'u world \<Rightarrow> slider \<times> 'u world" where
  "slider_render s w =
     (let min' = Finite (sl_min s); max' = Finite (sl_max s); value = sl_value s;
          x = Finite (sl_x s); y = Finite (sl_y s);
          width = Finite (sl_width s); height = Finite (sl_height s);
          (mouseX, mouseY) = getMousePosition w;
          sliderPos = d_mul (d_div (d_sub value min') (d_sub max' min')) width;
          ctx = canvas w;
          ctx1 = ctx\<lparr>ctx_fillStyle := ''#aaa''\<rparr>;
          ctx2 = ctx_fillRect ctx1 x y width (Finite 10);
          ctx3 = ctx2\<lparr>ctx_fillStyle := ''#333''\<rparr>;
          ctx4 = ctx_fillRect ctx3 (d_sub (d_add x sliderPos) (Finite 5))
                   (d_sub y (Finite 5)) (Finite 10) (Finite 20);
          w1 = w\<lparr>canvas := ctx4\<rparr>
      in if js_less x (Finite mouseX) \<and> js_less (Finite mouseX) (d_add x width) \<and>
            js_less y (Finite mouseY) \<and> js_less (Finite mouseY) (d_add y height) \<and>
            isClicked w1
         then (s\<lparr>sl_value :=
                   d_add min' (d_mul (d_div (d_sub (Finite mouseX) x) width) (d_sub max' min'))\<rparr>,
               w1)
         else (s, w1))"

subsection \<open>layout/layout.js\<close>

text \<open>
  \<open>options\<close> with its two optional properties; \<open>{}\<close> has neither. The object
  \<open>flexRow\<close> returns closes over \<open>children\<close>, \<open>spacing\<close>, \<open>padding\<close> and the variable
  \<open>xOffset\<close>, which is declared in \<open>flexRow\<close> itself, outside \<open>render\<close>.
\<close>

record layout_options =
  opt_spacing :: "real option"
  opt_padding :: "real option"

record 'u flexRow_obj =
  row_children :: "'u component list"
  row_spacing :: real
  row_padding :: real
  row_xOffset :: jsnum

definition flexRow :: "'u component list \<Rightarrow> layout_options \<Rightarrow> 'u flexRow_obj" where
  "flexRow children options =
     (let spacing = (case opt_spacing options of None \<Rightarrow> 10 | Some v \<Rightarrow> v);
          padding = (case opt_padding options of None \<Rightarrow> 0 | Some v \<Rightarrow> v);
          xOffset = Finite padding
      in \<lparr>row_children = children, row_spacing = spacing, row_padding = padding,
          row_xOffset = xOffset\<rparr>)"

text \<open>
  \<open>children.forEach\<close> of \<open>flexRow\<close>'s render: each child is rendered at
  \<open>(xOffset, padding)\<close>, then \<open>xOffset += child.width + spacing\<close>. An exception from a
  child ends the loop.
\<close>

fun flexRow_forEach ::
  "'u component list \<Rightarrow> real \<Rightarrow> real \<Rightarrow> jsnum \<Rightarrow> 'u world \<Rightarrow> exn + (jsnum \<times> 'u world)" where
  "flexRow_forEach [] spacing padding xOffset w = Inr (xOffset, w)"
| "flexRow_forEach (child # rest) spacing padding xOffset w =
     (case obj_render child (Some xOffset) (Some (Finite padding)) w of
        Inl e \<Rightarrow> Inl e
      | Inr w1 \<Rightarrow>
          flexRow_forEach rest spacing padding
            (js_add xOffset (js_add (ToNumber (obj_width child)) (Finite spacing))) w1)"

definition flexRow_render :: "'u flexRow_obj \<Rightarrow> 'u world \<Rightarrow> exn + ('u flexRow_obj \<times> 'u world)" where
  "flexRow_render r w =
     (case flexRow_forEach (row_children r) (row_spacing r) (row_padding r) (row_xOffset r) w of
        Inl e \<Rightarrow> Inl e
      | Inr (xOffset, w1) \<Rightarrow> Inr (r\<lparr>row_xOffset := xOffset\<rparr>, w1))"

record 'u flexColumn_obj =
  col_children :: "'u component list"
  col_spacing :: real
  col_padding :: real
  col_yOffset :: jsnum

definition flexColumn :: "'u component list \<Rightarrow> layout_options \<Rightarrow> 'u flexColumn_obj" where
  "flexColumn children options =
     (let spacing = (case opt_spacing options of None \<Rightarrow> 10 | Some v \<Rightarrow> v);
          padding = (case opt_padding options of None \<Rightarrow> 0 | Some v \<Rightarrow> v);
          yOffset = Finite padding
      in \<lparr>col_children = children, col_spacing = spacing, col_padding = padding,
          col_yOffset = yOffset\<rparr>)"

fun flexColumn_forEach ::
  "'u component list \<Rightarrow> real \<Rightarrow> real \<Rightarrow> jsnum \<Rightarrow> 'u world \<Rightarrow> exn + (jsnum \<times> 'u world)" where
  "flexColumn_forEach [] spacing padding yOffset w = Inr (yOffset, w)"
| "flexColumn_forEach (child # rest) spacing padding yOffset w =
     (case obj_render child (Some (Finite padding)) (Some yOffset) w of
        Inl e \<Rightarrow> Inl e
      | Inr w1 \<Rightarrow>
          flexColumn_forEach rest spacing padding
            (js_add yOffset (js_add (ToNumber (obj_height child)) (Finite spacing))) w1)"

definition flexColumn_render ::
  "'u flexColumn_obj \<Rightarrow> 'u world \<Rightarrow> exn + ('u flexColumn_obj \<times> 'u world)" where
  "flexColumn_render c w =
     (case flexColumn_forEach (col_children c) (col_spacing c) (col_padding c) (col_yOffset c) w of
        Inl e \<Rightarrow> Inl e
      | Inr (yOffset, w1) \<Rightarrow> Inr (c\<lparr>col_yOffset := yOffset\<rparr>, w1))"

subsection \<open>components/highLevelButton.js\<close>

text \<open>
  The inner button is created once, at \<open>(0, 0)\<close>. Every \<open>render(ctx, x, y)\<close> builds a
  new \<open>flexRow([button], { padding: 5 })\<close>, renders it and drops it; \<open>x\<close> and \<open>y\<close> are
  not used.
\<close>

definition highLevelButton ::
  "string \<Rightarrow> real \<Rightarrow> real \<Rightarrow> 'u callback option \<Rightarrow> 'u component" where
  "highLevelButton label width height onClick =
     (let button = createButton_002 label 0 0 width height onClick
      in \<lparr>obj_width = Some width, obj_height = Some height,
          obj_render = (\<lambda>x y w.
            case flexRow_render
                   (flexRow [button] \<lparr>opt_spacing = None, opt_padding = Some 5\<rparr>) w of
              Inl e \<Rightarrow> Inl e
            | Inr (_, w1) \<Rightarrow> Inr w1)\<rparr>)"

section \<open>Frames and input events\<close>

text \<open>
  What happens to one component over time: the listeners of \<open>setupInput\<close> run on
  input events, and a render tick calls the component's \<open>render(ctx)\<close> with no
  position. An exception ends the run.
\<close>

datatype event = MouseMove real real real real | MouseDown | MouseUp | RenderTick

fun run_events :: "'u component \<Rightarrow> event list \<Rightarrow> 'u world \<Rightarrow> exn + 'u world" where
  "run_events c [] w = Inr w"
| "run_events c (MouseMove clientX clientY rect_left rect_top # es) w =
     run_events c es (on_mousemove clientX clientY rect_left rect_top w)"
| "run_events c (MouseDown # es) w = run_events c es (on_mousedown w)"
| "run_events c (MouseUp # es) w = run_events c es (on_mouseup w)"
| "run_events c (RenderTick # es) w =
     (case obj_render c None None w of
        Inl e \<Rightarrow> Inl e
      | Inr w1 \<Rightarrow> run_events c es w1)"

text \<open>
  A child that only records where it is asked to render: its application state is the
  list of positions it has been given.
\<close>

definition recording_child ::
  "real \<Rightarrow> real \<Rightarrow> (jsnum option \<times> jsnum option) list component" where
  "recording_child width height =
     \<lparr>obj_width = Some width, obj_height = Some height,
      obj_render = (\<lambda>x y w. Inr (w\<lparr>user := user w @ [(x, y)]\<rparr>))\<rparr>"

text \<open>A slider rendered on \<open>n\<close> frames in a row, with no input event in between.\<close>

fun slider_frames :: "nat \<Rightarrow> slider \<Rightarrow> 'u world \<Rightarrow> slider \<times> 'u world" where
  "slider_frames 0 s w = (s, w)"
| "slider_frames (Suc n) s w = (case slider_render s w of (s1, w1) \<Rightarrow> slider_frames n s1 w1)"


section \<open>Rounding\<close>

lemma pow2_powr: "pow2 k = 2 powr of_int k"
  by (auto simp add: pow2_def powr_real_of_int field_simps)

lemma pow2_pos [simp]: "0 < pow2 k"
  by (simp add: pow2_powr)

lemma pow2_neq_0 [simp]: "pow2 k \<noteq> 0"
  using pow2_pos [of k] by linarith

lemma pow2_abs [simp]: "\<bar>pow2 k\<bar> = pow2 k"
  using pow2_pos [of k] by linarith

lemma pow2_add: "pow2 (a + b) = pow2 a * pow2 b"
  by (simp add: pow2_powr powr_add)

lemma pow2_mono: "a \<le> b \<Longrightarrow> pow2 a \<le> pow2 b"
  by (simp add: pow2_powr)

lemma pow2_less_iff: "pow2 a < pow2 b \<longleftrightarrow> a < b"
  by (simp add: pow2_powr)

lemma pow2_nonneg_int: "0 \<le> k \<Longrightarrow> pow2 k = of_int (2 ^ nat k)"
  by (simp add: pow2_def)

lemma round_half_even_of_int [simp]: "round_half_even (of_int j) = j"
  by (simp add: round_half_even_def)


lemma double_exponent_bounds:
  assumes "r \<noteq> 0"
  shows "\<bar>r\<bar> < pow2 (double_exponent r + 1)"
    and "- 1022 \<le> double_exponent r"
    and "double_exponent r = - 1022 \<or> pow2 (double_exponent r) \<le> \<bar>r\<bar>"
proof -
  have pos: "0 < \<bar>r\<bar>" using assms by simp
  define l where "l = \<lfloor>log 2 \<bar>r\<bar>\<rfloor>"
  have l: "pow2 l \<le> \<bar>r\<bar>" "\<bar>r\<bar> < pow2 (l + 1)"
    using floor_log_eq_powr_iff [of "\<bar>r\<bar>" 2 l] pos by (simp_all add: l_def pow2_powr)
  have e: "double_exponent r = max l (- 1022)" by (simp add: double_exponent_def l_def)
  have "pow2 (l + 1) \<le> pow2 (max l (- 1022) + 1)" by (intro pow2_mono) simp
  then show "\<bar>r\<bar> < pow2 (double_exponent r + 1)" using l e by simp
  show "- 1022 \<le> double_exponent r" using e by simp
  show "double_exponent r = - 1022 \<or> pow2 (double_exponent r) \<le> \<bar>r\<bar>"
    using e l by (cases "l \<le> - 1022") (auto simp add: max_def)
qed

text \<open>
  A number \<open>m * 2^k\<close> with \<open>|m| < 2^53\<close> and \<open>k \<ge> -1074\<close>, below \<open>2^1024\<close>, is a double:
  rounding returns it.
\<close>

lemma round_double_exact:
  assumes r: "r = of_int m * pow2 k" and m: "\<bar>m\<bar> < 2 ^ 53" and k: "- 1074 \<le> k"
    and fin: "\<bar>r\<bar> < pow2 1024"
  shows "round_double r = Finite r"
proof (cases "r = 0")
  case True
  then show ?thesis by (simp add: round_double_def)
next
  case False
  define e where "e = double_exponent r"
  have ek: "e - 52 \<le> k"
  proof (cases "e = - 1022")
    case True
    then show ?thesis using k by simp
  next
    case False
    then have "pow2 e \<le> \<bar>r\<bar>"
      using double_exponent_bounds(3) [OF \<open>r \<noteq> 0\<close>] by (simp add: e_def)
    also have "\<bar>r\<bar> = of_int \<bar>m\<bar> * pow2 k" by (simp add: r abs_mult)
    also have "\<dots> < of_int (2 ^ 53) * pow2 k"
    proof (intro mult_strict_right_mono)
      show "real_of_int \<bar>m\<bar> < real_of_int (2 ^ 53)" using m by (simp only: of_int_less_iff)
      show "0 < pow2 k" by simp
    qed
    also have "\<dots> = pow2 (53 + k)" by (simp add: pow2_add) (simp add: pow2_def)
    finally have "e < 53 + k" by (simp add: pow2_less_iff)
    then show ?thesis by simp
  qed
  define j where "j = m * 2 ^ nat (k - (e - 52))"
  have "pow2 k = pow2 (k - (e - 52)) * pow2 (e - 52)"
    by (simp add: pow2_add [symmetric])
  also have "pow2 (k - (e - 52)) = of_int (2 ^ nat (k - (e - 52)))"
    using ek by (intro pow2_nonneg_int) simp
  finally have rj: "r = of_int j * pow2 (e - 52)" by (simp add: r j_def)
  then have q: "r / pow2 (e - 52) = of_int j" by simp
  have v: "of_int (round_half_even (r / pow2 (e - 52))) * pow2 (e - 52) = r"
    by (simp only: q round_half_even_of_int rj [symmetric])
  show ?thesis
    unfolding round_double_def Let_def e_def [symmetric] v using False fin by simp
qed

lemma pow2_1024_large: "2 ^ 53 \<le> pow2 1024"
proof -
  have "pow2 53 \<le> pow2 1024" by (intro pow2_mono) simp
  then show ?thesis by (simp add: pow2_def)
qed

lemma round_double_of_int:
  assumes "\<bar>n\<bar> < 2 ^ 53"
  shows "round_double (of_int n) = Finite (of_int n)"
proof (rule round_double_exact [of _ n 0])
  show "real_of_int n = real_of_int n * pow2 0" by (simp add: pow2_def)
  show "\<bar>n\<bar> < 2 ^ 53" by fact
  show "- 1074 \<le> (0::int)" by simp
  have "\<bar>real_of_int n\<bar> = real_of_int \<bar>n\<bar>" by simp
  also have "\<dots> < real_of_int (2 ^ 53)" using assms by (simp only: of_int_less_iff)
  also have "\<dots> \<le> pow2 1024" using pow2_1024_large by simp
  finally show "\<bar>real_of_int n\<bar> < pow2 1024" .
qed

lemma round_double_numeral:
  "(numeral n :: int) < 9007199254740992 \<Longrightarrow> round_double (numeral n) = Finite (numeral n)"
  using round_double_of_int [of "numeral n"] by simp


lemma round_double_0 [simp]: "round_double 0 = Finite 0"
  by (simp add: round_double_def)

lemma round_double_1 [simp]: "round_double 1 = Finite 1"
  using round_double_of_int [of 1] by simp

lemma round_double_half: "round_double (1 / 2) = Finite (1 / 2)"
proof (rule round_double_exact [of _ 1 "- 1"])
  show "1 / 2 = real_of_int 1 * pow2 (- 1)" by (simp add: pow2_def)
  have "(1 / 2 :: real) < 2 ^ 53" by simp
  then show "\<bar>1 / 2 :: real\<bar> < pow2 1024" using pow2_1024_large by simp
qed simp_all





section \<open>Unfolding the components\<close>

lemmas button_defs = createButton_001_def createButton_002_def getMousePosition_def isClicked_def
  drawRect_def drawText_def ctx_fillRect_def ctx_fillText_def Let_def
  theme_button_color_def theme_button_hoverColor_def theme_button_textColor_def
  theme_button_font_def

lemmas slider_defs = slider_render_def getMousePosition_def isClicked_def Let_def

lemmas double_defs = d_add_def d_sub_def d_mul_def d_div_def js_sub_def js_mul_def






lemmas input_defs = on_mousemove_def on_mousedown_def on_mouseup_def initial_world_def

text \<open>A slider's render leaves the pointer state alone.\<close>

lemma slider_render_input [simp]:
  "mouseX (snd (slider_render s w)) = mouseX w"
  "mouseY (snd (slider_render s w)) = mouseY w"
  "isMouseClicked (snd (slider_render s w)) = isMouseClicked w"
  by (simp_all add: slider_defs)

text \<open>After a drag update, a render under the same pointer state recomputes the same slider.\<close>

lemma slider_render_again:
  assumes "mouseX w2 = mouseX w" "mouseY w2 = mouseY w" "isMouseClicked w2 = isMouseClicked w"
    and "sl_x s < mouseX w"
    and "js_less (Finite (mouseX w)) (d_add (Finite (sl_x s)) (Finite (sl_width s)))"
    and "sl_y s < mouseY w"
    and "js_less (Finite (mouseY w)) (d_add (Finite (sl_y s)) (Finite (sl_height s)))"
    and "isMouseClicked w"
  shows "fst (slider_render (fst (slider_render s w)) w2) = fst (slider_render s w)"
  using assms by (simp add: slider_defs)

lemma slider_frames_fixed:
  assumes "fst (slider_render s w) = s"
  shows "fst (slider_frames n s w) = s"
  using assms
proof (induction n arbitrary: w)
  case 0
  then show ?case by simp
next
  case (Suc n)
  obtain s1 w1 where r: "slider_render s w = (s1, w1)" by (cases "slider_render s w")
  with Suc.prems have s1: "s1 = s" by simp
  have "fst (slider_render s w1) = s"
    using Suc.prems r by (auto simp add: slider_defs split: if_splits)
  then show ?case using Suc.IH r s1 by simp
qed



lemma createButton_002_no_callback:
  "\<exists>w1. obj_render (createButton_002 label x y width height None) a b w = Inr w1 \<and>
         user w1 = user w \<and> console w1 = console w"
  by (simp add: button_defs)

section \<open>Layout\<close>

text \<open>
  Claim C6. On the first render of a \<open>flexRow\<close> container that holds two children of
  width 150, with \<open>spacing = 20\<close> and \<open>padding = 20\<close>, the children are visited in
  insertion order: child 0 is rendered at \<open>(20, 20)\<close>, then child 1 at \<open>(190, 20)\<close>
  (190 = 20 + 150 + 20); the cross-axis position of both is the padding. The render call
  is exactly these two child render calls in sequence (an exception from a child
  escapes), and it leaves the container's offset at 360.
\<close>

theorem flexRow_first_render_places_children:
  fixes c0 c1 :: "'u component"
  assumes "obj_width c0 = Some 150" and "obj_width c1 = Some 150"
  shows "flexRow_render (flexRow [c0, c1] \<lparr>opt_spacing = Some 20, opt_padding = Some 20\<rparr>) w =
     (case obj_render c0 (Some (Finite 20)) (Some (Finite 20)) w of
        Inl e \<Rightarrow> Inl e
      | Inr w1 \<Rightarrow>
          (case obj_render c1 (Some (Finite 190)) (Some (Finite 20)) w1 of
             Inl e \<Rightarrow> Inl e
           | Inr w2 \<Rightarrow>
               Inr (\<lparr>row_children = [c0, c1], row_spacing = 20, row_padding = 20,
                     row_xOffset = Finite 360\<rparr>, w2)))"
  using assms by (simp add: flexRow_render_def flexRow_def split: sum.splits)

text \<open>Two recording children of width 150: they are given \<open>(20, 20)\<close> and \<open>(190, 20)\<close>.\<close>

theorem flexRow_first_render_places_children_witness:
  "obj_width (recording_child 150 50) = Some 150 \<and>
   obj_width (recording_child 150 60) = Some 150 \<and>
   flexRow_render
     (flexRow [recording_child 150 50, recording_child 150 60]
        \<lparr>opt_spacing = Some 20, opt_padding = Some 20\<rparr>) (initial_world []) =
   Inr (\<lparr>row_children = [recording_child 150 50, recording_child 150 60],
         row_spacing = 20, row_padding = 20, row_xOffset = Finite 360\<rparr>,
        (initial_world [])\<lparr>user := [(Some (Finite 20), Some (Finite 20)),
                                    (Some (Finite 190), Some (Finite 20))]\<rparr>)"
  using flexRow_first_render_places_children
          [of "recording_child 150 50" "recording_child 150 60" "initial_world []"]
  by (simp add: recording_child_def initial_world_def)

text \<open>
  Claim C1 says that every render call of a \<open>flexRow\<close> or \<open>flexColumn\<close> container starts
  its offset at \<open>padding\<close>, so that two renders in succession place each child at the
  same position. The code sets the offset to \<open>padding\<close> once, when the container is
  built, and every render goes on from where the previous one stopped. A container with
  one recording child of size 150 x 50, \<open>spacing = 20\<close> and \<open>padding = 20\<close>, rendered
  twice: the row gives the child \<open>(20, 20)\<close> and then \<open>(190, 20)\<close>; the column gives it
  \<open>(20, 20)\<close> and then \<open>(20, 90)\<close>.
\<close>

theorem flex_second_render_starts_where_first_ended:
  "(case flexRow_render
           (flexRow [recording_child 150 50] \<lparr>opt_spacing = Some 20, opt_padding = Some 20\<rparr>)
           (initial_world []) of
      Inl e \<Rightarrow> []
    | Inr (r1, w1) \<Rightarrow>
        (case flexRow_render r1 w1 of Inl e \<Rightarrow> [] | Inr (r2, w2) \<Rightarrow> user w2)) =
   [(Some (Finite 20), Some (Finite 20)), (Some (Finite 190), Some (Finite 20))]
   \<and>
   (case flexColumn_render
           (flexColumn [recording_child 150 50] \<lparr>opt_spacing = Some 20, opt_padding = Some 20\<rparr>)
           (initial_world []) of
      Inl e \<Rightarrow> []
    | Inr (c1, w1) \<Rightarrow>
        (case flexColumn_render c1 w1 of Inl e \<Rightarrow> [] | Inr (c2, w2) \<Rightarrow> user w2)) =
   [(Some (Finite 20), Some (Finite 20)), (Some (Finite 20), Some (Finite 90))]"
  by (simp add: flexRow_render_def flexRow_def flexColumn_render_def flexColumn_def
        recording_child_def initial_world_def)

section \<open>Buttons\<close>






text \<open>
  Claim C8. A button built with no \<open>onClick\<close> never throws during render: whatever the
  sequence of pointer moves, presses, releases and render ticks, and whatever the world
  it starts in, the run completes normally; the click branch does nothing (the
  application state and the console are as before).
\<close>

theorem button_without_onClick_never_throws:
  "\<exists>w1. run_events (createButton_002 label x y width height None) evs w = Inr w1 \<and>
         user w1 = user w \<and> console w1 = console w"
proof (induction evs arbitrary: w)
  case Nil
  then show ?case by simp
next
  case (Cons ev evs)
  show ?case
  proof (cases ev)
    case (MouseMove cx cy l t)
    with Cons [of "on_mousemove cx cy l t w"] show ?thesis by (simp add: on_mousemove_def)
  next
    case MouseDown
    with Cons [of "on_mousedown w"] show ?thesis by (simp add: on_mousedown_def)
  next
    case MouseUp
    with Cons [of "on_mouseup w"] show ?thesis by (simp add: on_mouseup_def)
  next
    case RenderTick
    obtain w1 where
      r: "obj_render (createButton_002 label x y width height None) None None w = Inr w1"
      and u: "user w1 = user w" "console w1 = console w"
      using createButton_002_no_callback [of label x y width height None None w] by blast
    with Cons [of w1] RenderTick show ?thesis by simp
  qed
qed

section \<open>Sliders\<close>

text \<open>
  Claim C3, as the code has it. For a slider built with \<open>min = 0\<close>, \<open>max = 100\<close>,
  \<open>x = 50\<close>, \<open>y = 150\<close>, \<open>width = 200\<close> (any initial value, any height), with the pointer
  down and strictly inside the slider's vertical band (below \<open>y + height\<close> as the code
  computes it): a render with \<open>mouseX = 150\<close> sets the value to 50; a render with
  \<open>mouseX = 50\<close> or with \<open>mouseX = 250\<close> fails the strict hit test and leaves the value
  as it was.
\<close>

theorem slider_example_values:
  assumes "createSlider 0 100 value 50 150 200 height = Inr s"
    and "isMouseClicked w" and "150 < mouseY w"
    and "js_less (Finite (mouseY w)) (d_add (Finite 150) (Finite height))"
  shows "sl_value (fst (slider_render s (w\<lparr>mouseX := 150\<rparr>))) = Finite 50 \<and>
         sl_value (fst (slider_render s (w\<lparr>mouseX := 50\<rparr>))) = Finite value \<and>
         sl_value (fst (slider_render s (w\<lparr>mouseX := 250\<rparr>))) = Finite value"
  using assms
  by (auto simp add: createSlider_def slider_defs double_defs round_double_numeral
        round_double_half)

text \<open>Initial value 25, height 10, the pointer down at height 155.\<close>

theorem slider_example_values_witness:
  "createSlider 0 100 25 50 150 200 10 =
     Inr \<lparr>sl_min = 0, sl_max = 100, sl_value = Finite 25, sl_x = 50, sl_y = 150,
          sl_width = 200, sl_height = 10\<rparr> \<and>
   isMouseClicked (on_mousedown (on_mousemove 0 155 0 0 (initial_world ()))) \<and>
   150 < mouseY (on_mousedown (on_mousemove 0 155 0 0 (initial_world ()))) \<and>
   js_less (Finite (mouseY (on_mousedown (on_mousemove 0 155 0 0 (initial_world ())))))
     (d_add (Finite 150) (Finite 10)) \<and>
   sl_value (fst (slider_render
      \<lparr>sl_min = 0, sl_max = 100, sl_value = Finite 25, sl_x = 50, sl_y = 150,
       sl_width = 200, sl_height = 10\<rparr>
      ((on_mousedown (on_mousemove 0 155 0 0 (initial_world ())))\<lparr>mouseX := 150\<rparr>)))
     = Finite 50 \<and>
   sl_value (fst (slider_render
      \<lparr>sl_min = 0, sl_max = 100, sl_value = Finite 25, sl_x = 50, sl_y = 150,
       sl_width = 200, sl_height = 10\<rparr>
      ((on_mousedown (on_mousemove 0 155 0 0 (initial_world ())))\<lparr>mouseX := 50\<rparr>)))
     = Finite 25 \<and>
   sl_value (fst (slider_render
      \<lparr>sl_min = 0, sl_max = 100, sl_value = Finite 25, sl_x = 50, sl_y = 150,
       sl_width = 200, sl_height = 10\<rparr>
      ((on_mousedown (on_mousemove 0 155 0 0 (initial_world ())))\<lparr>mouseX := 250\<rparr>)))
     = Finite 25"
  using slider_example_values [of 25 10
      "\<lparr>sl_min = 0, sl_max = 100, sl_value = Finite 25, sl_x = 50, sl_y = 150,
        sl_width = 200, sl_height = 10\<rparr>"
      "on_mousedown (on_mousemove 0 155 0 0 (initial_world ()))"]
  by (simp add: createSlider_def input_defs double_defs round_double_numeral)

text \<open>
  Claim C3 as stated fails at both ends of the track. The slider built with initial
  value 50 and height 10, the pointer down at \<open>(50, 155)\<close>: the value stays 50, it is
  not set to 0. The pointer down at \<open>(250, 155)\<close>: the value stays 50, it is not set to
  100.
\<close>

theorem slider_edge_pointer_keeps_value:
  "createSlider 0 100 50 50 150 200 10 =
     Inr \<lparr>sl_min = 0, sl_max = 100, sl_value = Finite 50, sl_x = 50, sl_y = 150,
          sl_width = 200, sl_height = 10\<rparr> \<and>
   sl_value (fst (slider_render
      \<lparr>sl_min = 0, sl_max = 100, sl_value = Finite 50, sl_x = 50, sl_y = 150,
       sl_width = 200, sl_height = 10\<rparr>
      (on_mousedown (on_mousemove 50 155 0 0 (initial_world ()))))) = Finite 50 \<and>
   sl_value (fst (slider_render
      \<lparr>sl_min = 0, sl_max = 100, sl_value = Finite 50, sl_x = 50, sl_y = 150,
       sl_width = 200, sl_height = 10\<rparr>
      (on_mousedown (on_mousemove 250 155 0 0 (initial_world ()))))) = Finite 50"
  by (simp add: createSlider_def slider_defs input_defs double_defs round_double_numeral)

text \<open>
  Claim C5, as the code has it. \<open>createSlider\<close> validates nothing and never rejects: for
  every \<open>min\<close>, \<open>max\<close>, \<open>value\<close>, position and size, \<open>max \<le> min\<close> and negative sizes
  included, it returns the slider object built from exactly these arguments.
\<close>

theorem createSlider_never_rejects:
  "createSlider min' max' value x y width height =
     Inr \<lparr>sl_min = min', sl_max = max', sl_value = Finite value, sl_x = x, sl_y = y,
          sl_width = width, sl_height = height\<rparr>"
  by (simp add: createSlider_def)

text \<open>
  Claim C5 as stated fails: a slider object is returned for \<open>max < min\<close> with a negative
  width and height, and for \<open>max = min\<close>.
\<close>

theorem createSlider_accepts_invalid_range:
  "createSlider 100 0 50 50 150 (- 200) (- 10) =
     Inr \<lparr>sl_min = 100, sl_max = 0, sl_value = Finite 50, sl_x = 50, sl_y = 150,
          sl_width = - 200, sl_height = - 10\<rparr> \<and>
   createSlider 0 0 0 50 150 200 10 =
     Inr \<lparr>sl_min = 0, sl_max = 0, sl_value = Finite 0, sl_x = 50, sl_y = 150,
          sl_width = 200, sl_height = 10\<rparr>"
  by (simp add: createSlider_def)

text \<open>
  Claim C7. If a render call updates a slider's value (the pointer is down and passes
  the strict hit test of the code), the value it assigns is
  \<open>min + (mouseX - x) / width * (max - min)\<close>, computed in doubles, and every later
  render call that sees the same pointer position and the same held-down state leaves
  the slider as that first update left it: a render in any world \<open>w2\<close> with that pointer
  state, and any number of further frames in a row.
\<close>

theorem slider_drag_is_fixed_point:
  assumes "sl_x s < mouseX w"
    and "js_less (Finite (mouseX w)) (d_add (Finite (sl_x s)) (Finite (sl_width s)))"
    and "sl_y s < mouseY w"
    and "js_less (Finite (mouseY w)) (d_add (Finite (sl_y s)) (Finite (sl_height s)))"
    and "isMouseClicked w"
    and "mouseX w2 = mouseX w" and "mouseY w2 = mouseY w"
    and "isMouseClicked w2 = isMouseClicked w"
  shows "sl_value (fst (slider_render s w)) =
           d_add (Finite (sl_min s))
             (d_mul (d_div (d_sub (Finite (mouseX w)) (Finite (sl_x s))) (Finite (sl_width s)))
                (d_sub (Finite (sl_max s)) (Finite (sl_min s)))) \<and>
         fst (slider_render (fst (slider_render s w)) w2) = fst (slider_render s w) \<and>
         fst (slider_frames (Suc n) s w) = fst (slider_render s w)"
proof (intro conjI)
  show "sl_value (fst (slider_render s w)) =
           d_add (Finite (sl_min s))
             (d_mul (d_div (d_sub (Finite (mouseX w)) (Finite (sl_x s))) (Finite (sl_width s)))
                (d_sub (Finite (sl_max s)) (Finite (sl_min s))))"
    using assms by (simp add: slider_defs)
  show "fst (slider_render (fst (slider_render s w)) w2) = fst (slider_render s w)"
    using assms by (simp add: slider_render_again)
  obtain s1 w1 where r: "slider_render s w = (s1, w1)" by (cases "slider_render s w")
  have "fst (slider_render (fst (slider_render s w)) (snd (slider_render s w))) =
          fst (slider_render s w)"
    using assms by (intro slider_render_again [where w = w]) simp_all
  then have "fst (slider_render s1 w1) = s1" using r by simp
  then have "fst (slider_frames n s1 w1) = s1" by (rule slider_frames_fixed)
  then show "fst (slider_frames (Suc n) s w) = fst (slider_render s w)" using r by simp
qed

text \<open>
  The slider 0..100 at \<open>(50, 150)\<close>, 200 wide and 10 high, initial value 25, with the
  pointer down at \<open>(150, 155)\<close>: the first render sets the value to 50, and it stays.
\<close>

theorem slider_drag_is_fixed_point_witness:
  "sl_x \<lparr>sl_min = 0, sl_max = 100, sl_value = Finite 25, sl_x = 50, sl_y = 150,
         sl_width = 200, sl_height = 10\<rparr>
     < mouseX (on_mousedown (on_mousemove 150 155 0 0 (initial_world ()))) \<and>
   js_less (Finite (mouseX (on_mousedown (on_mousemove 150 155 0 0 (initial_world ())))))
     (d_add (Finite 50) (Finite 200)) \<and>
   isMouseClicked (on_mousedown (on_mousemove 150 155 0 0 (initial_world ()))) \<and>
   sl_value (fst (slider_render
      \<lparr>sl_min = 0, sl_max = 100, sl_value = Finite 25, sl_x = 50, sl_y = 150,
       sl_width = 200, sl_height = 10\<rparr>
      (on_mousedown (on_mousemove 150 155 0 0 (initial_world ()))))) = Finite 50 \<and>
   sl_value (fst (slider_frames (Suc 2)
      \<lparr>sl_min = 0, sl_max = 100, sl_value = Finite 25, sl_x = 50, sl_y = 150,
       sl_width = 200, sl_height = 10\<rparr>
      (on_mousedown (on_mousemove 150 155 0 0 (initial_world ()))))) = Finite 50"
proof -
  let ?s = "\<lparr>sl_min = 0, sl_max = 100, sl_value = Finite 25, sl_x = 50, sl_y = 150,
             sl_width = 200, sl_height = 10\<rparr>"
  let ?w = "on_mousedown (on_mousemove 150 155 0 0 (initial_world ()))"
  have h: "sl_x ?s < mouseX ?w"
    "js_less (Finite (mouseX ?w)) (d_add (Finite (sl_x ?s)) (Finite (sl_width ?s)))"
    "sl_y ?s < mouseY ?w"
    "js_less (Finite (mouseY ?w)) (d_add (Finite (sl_y ?s)) (Finite (sl_height ?s)))"
    "isMouseClicked ?w"
    by (simp_all add: input_defs double_defs round_double_numeral)
  have v: "d_add (Finite (sl_min ?s))
             (d_mul (d_div (d_sub (Finite (mouseX ?w)) (Finite (sl_x ?s))) (Finite (sl_width ?s)))
                (d_sub (Finite (sl_max ?s)) (Finite (sl_min ?s)))) = Finite 50"
    by (simp add: input_defs double_defs round_double_numeral round_double_half)
  from slider_drag_is_fixed_point [OF h refl refl refl, of 2] v h
  show ?thesis by simp
qed













section \<open>High-level buttons\<close>

text \<open>
  The render of a \<open>highLevelButton\<close> does not use its \<open>x\<close> and \<open>y\<close> arguments: two render
  calls that differ only in them do the same, namely what the render of the inner
  button, built at \<open>(0, 0)\<close>, does. A \<open>flexColumn\<close> of two of them renders the two inner
  buttons one after the other.
\<close>

lemma highLevelButton_ignores_position:
  fixes onClick :: "'u callback option" and onClick2 :: "'u callback option"
  shows
  "obj_render (highLevelButton label width height onClick) x y w =
     obj_render (highLevelButton label width height onClick) x' y' w \<and>
   obj_render (highLevelButton label width height onClick) x y w =
     obj_render (createButton_002 label 0 0 width height onClick) a b w \<and>
   flexColumn_render
     (flexColumn [highLevelButton label width height onClick,
                  highLevelButton label2 width2 height2 onClick2]
        \<lparr>opt_spacing = Some 20, opt_padding = Some 20\<rparr>) w =
     (case obj_render (createButton_002 label 0 0 width height onClick) a b w of
        Inl e \<Rightarrow> Inl e
      | Inr w1 \<Rightarrow>
          (case obj_render (createButton_002 label2 0 0 width2 height2 onClick2) a b w1 of
             Inl e \<Rightarrow> Inl e
           | Inr w2 \<Rightarrow>
               Inr (\<lparr>col_children = [highLevelButton label width height onClick,
                                      highLevelButton label2 width2 height2 onClick2],
                     col_spacing = 20, col_padding = 20,
                     col_yOffset = Finite (20 + (height + 20) + (height2 + 20))\<rparr>, w2)))"
  by (simp add: highLevelButton_def flexRow_render_def flexRow_def flexColumn_render_def
        flexColumn_def createButton_002_def Let_def split: sum.splits option.splits)

text \<open>
  Claim C10 has the inner button of a \<open>highLevelButton\<close> hit-tested and drawn at
  \<open>(0, 0)\<close> offset by the padding of 5 of the internal \<open>flexRow\<close>, which is what the
  source line says it does (\<open>// Button with padding inside a row\<close>). The row does hand
  \<open>(5, 5)\<close> to its child: a recording child is given that position. The inner button's
  \<open>render(ctx)\<close> takes no position, so the padding is lost: a 150 x 50
  \<open>highLevelButton\<close> asked to render at \<open>(20, 20)\<close>, the pointer at \<open>(2, 2)\<close>, draws its
  rectangle at \<open>(0, 0)\<close>, not at \<open>(5, 5)\<close>, and in the hover colour, although the pointer
  is not right of \<open>0 + 5\<close>.
\<close>

theorem highLevelButton_drawn_without_padding:
  "flexRow_render (flexRow [recording_child 150 50] \<lparr>opt_spacing = None, opt_padding = Some 5\<rparr>)
     (initial_world []) =
   Inr (\<lparr>row_children = [recording_child 150 50], row_spacing = 10, row_padding = 5,
         row_xOffset = Finite 165\<rparr>,
        \<lparr>mouseX = 0, mouseY = 0, isMouseClicked = False,
         canvas = \<lparr>ctx_fillStyle = ''#000000'', ctx_font = ''10px sans-serif'',
                   ctx_calls = []\<rparr>,
         console = [], user = [(Some (Finite 5), Some (Finite 5))]\<rparr>) \<and>
   \<not> (0 + 5 < mouseX (on_mousemove 2 2 0 0 (initial_world ()))) \<and>
   obj_render (highLevelButton ''A'' 150 50 None) (Some (Finite 20)) (Some (Finite 20))
     (on_mousemove 2 2 0 0 (initial_world ())) =
   Inr \<lparr>mouseX = 2, mouseY = 2, isMouseClicked = False,
        canvas = \<lparr>ctx_fillStyle = ''#fff'', ctx_font = ''16px Arial'',
                  ctx_calls = [FillRect ''#555'' (Finite 0) (Finite 0) (Finite 150) (Finite 50),
                               FillText ''#fff'' ''16px Arial'' ''A'' (Finite 10) (Finite 25)]\<rparr>,
        console = [], user = ()\<rparr>"
  by (simp add: highLevelButton_def flexRow_render_def flexRow_def button_defs input_defs
        recording_child_def)

end
